theory Spec2Isabelle
  imports Main
begin

section \<open>JavaScript strings and numbers\<close>

text \<open>
  A JavaScript string is modelled as a \<open>string\<close> whose characters are ASCII code units.
  \<open>isWhiteSpace\<close> holds of the ASCII members of the WhiteSpace and LineTerminator
  productions of ECMAScript (tab, line feed, vertical tab, form feed, carriage return and
  space), which is what \<open>String.prototype.trim\<close> and the leading-blank skipping of
  \<open>Number.parseInt\<close> remove.
\<close>

definition isWhiteSpace :: "char \<Rightarrow> bool" where
  "isWhiteSpace c = (c \<in> set [CHR 0x09, CHR 0x0A, CHR 0x0B, CHR 0x0C, CHR 0x0D, CHR 0x20])"

definition isDigit :: "char \<Rightarrow> bool" where
  "isDigit c = (c \<in> set ''0123456789'')"

definition digitVal :: "char \<Rightarrow> int" where
  "digitVal c = int (of_char c) - 48"

definition digitsValue :: "string \<Rightarrow> int" where
  "digitsValue ds = foldl (\<lambda>a c. 10 * a + digitVal c) 0 ds"

text \<open>\<open>String.prototype.trim\<close>: blanks are removed at both ends.\<close>

definition trim :: "string \<Rightarrow> string" where
  "trim s = rev (dropWhile isWhiteSpace (rev (dropWhile isWhiteSpace s)))"

text \<open>\<open>String.prototype.toLowerCase\<close> on ASCII: \<open>A\<close> .. \<open>Z\<close> move down by 32.\<close>

definition lowerChar :: "char \<Rightarrow> char" where
  "lowerChar c =
     (let n = (of_char c :: nat) in if 65 \<le> n \<and> n \<le> 90 then char_of (n + 32) else c)"

definition toLowerCase :: "string \<Rightarrow> string" where
  "toLowerCase s = map lowerChar s"

text \<open>
  \<open>String(v)\<close> and the implicit ToString of \<open>Number.parseInt\<close>, on a query parameter
  that is a string or absent: the absent parameter reads as \<open>undefined\<close>, whose string
  is the word itself.
\<close>

definition ToString :: "string option \<Rightarrow> string" where
  "ToString v = (case v of None \<Rightarrow> ''undefined'' | Some s \<Rightarrow> s)"

text \<open>
  \<open>Number.parseInt(s, 10)\<close>: skip leading blanks, read one optional sign, then the
  longest run of decimal digits; no digit there gives \<open>NaN\<close>, which is \<open>None\<close>. The
  value is kept as an exact integer (the double of the runtime is exact below \<open>2^53\<close>).
\<close>

definition parseInt10 :: "string \<Rightarrow> int option" where
  "parseInt10 s =
     (let t = dropWhile isWhiteSpace s;
          neg = (case t of [] \<Rightarrow> False | c # _ \<Rightarrow> c = CHR ''-'');
          u = (case t of [] \<Rightarrow> []
               | c # r \<Rightarrow> if c = CHR ''+'' \<or> c = CHR ''-'' then r else t);
          z = takeWhile isDigit u
      in if z = [] then None
         else Some ((if neg then - 1 else 1) * digitsValue z))"

section \<open>Pagination Resolver\<close>

type_synonym query = "string \<rightharpoonup> string"






section \<open>Filter Builder\<close>

text \<open>
  The value of \<open>minPrice\<close> and \<open>maxPrice\<close> inside \<open>buildProductFilter\<close>:
  \<open>undefined\<close> for an absent parameter, otherwise the result of \<open>Number(...)\<close>, which
  is \<open>NaN\<close> or a number. The numbers themselves are left abstract (type \<open>'n\<close>).
\<close>

datatype 'n jsnum = Undefined | NaN | Num 'n

text \<open>\<open>Number.isNaN\<close> does not coerce: it holds of the value \<open>NaN\<close> only.\<close>

definition NumberIsNaN :: "'n jsnum \<Rightarrow> bool" where
  "NumberIsNaN v = (case v of NaN \<Rightarrow> True | _ \<Rightarrow> False)"

text \<open>
  \<open>Number(s)\<close> on a string. The conversion of the runtime (StringToNumber) is the
  parameter \<open>toNum\<close>; \<open>None\<close> is its \<open>NaN\<close>.
\<close>

definition Number :: "(string \<Rightarrow> 'n option) \<Rightarrow> string \<Rightarrow> 'n jsnum" where
  "Number toNum s = (case toNum s of None \<Rightarrow> NaN | Some x \<Rightarrow> Num x)"

text \<open>
  A conversion to evaluate the model at sample inputs. It is StringToNumber on the strings
  that are blank or an optionally signed decimal integer between blanks, and on the
  strings that hold no numeric literal at all, such as \<open>abc\<close>; it does not read
  fractions, exponents, other radixes or \<open>Infinity\<close>.
\<close>

definition intLiteral :: "string \<Rightarrow> int option" where
  "intLiteral s =
     (let t = trim s;
          u = (case t of [] \<Rightarrow> []
               | c # r \<Rightarrow> if c = CHR ''+'' \<or> c = CHR ''-'' then r else t)
      in if t = [] then Some 0
         else if u = [] then None
         else if list_all isDigit u
           then Some ((case t of [] \<Rightarrow> 1 | c # _ \<Rightarrow> if c = CHR ''-'' then - 1 else 1)
                      * digitsValue u)
         else None)"

text \<open>Truthiness of a query parameter: present and not the empty string.\<close>

definition truthy :: "string option \<Rightarrow> bool" where
  "truthy v = (case v of None \<Rightarrow> False | Some s \<Rightarrow> s \<noteq> [])"

text \<open>\<open>s.split(',')\<close>: the pieces between commas; the empty string has one empty piece.\<close>

fun splitComma :: "string \<Rightarrow> string list" where
  "splitComma [] = [[]]"
| "splitComma (c # cs) =
     (if c = CHR '','' then [] # splitComma cs
      else (case splitComma cs of [] \<Rightarrow> [[c]] | w # ws \<Rightarrow> (c # w) # ws))"

text \<open>
  The predicates of the filter object: \<open>isActive: true\<close>, \<open>category: '...'\<close>, the
  \<open>price\<close> object with its \<open>$gte\<close> and \<open>$lte\<close> entries (\<open>None\<close> where the key was
  never assigned), \<open>tags: {$in: [...]}\<close> and \<open>$text: {$search: '...'}\<close>.
\<close>

datatype 'n predicate =
    PBool bool
  | PString string
  | PRange "'n jsnum option" "'n jsnum option"
  | PIn "string list"
  | PSearch string

type_synonym 'n productFilter = "string \<rightharpoonup> 'n predicate"

text \<open>The array built from \<open>query.tags\<close>: split, trim and lower-case, keep the non-empty.\<close>

definition tagList :: "string \<Rightarrow> string list" where
  "tagList s = filter (\<lambda>t. t \<noteq> []) (map (\<lambda>t. toLowerCase (trim t)) (splitComma s))"

definition buildProductFilter :: "(string \<Rightarrow> 'n option) \<Rightarrow> query \<Rightarrow> 'n productFilter" where
  "buildProductFilter toNum q =
     (let f0 = [''isActive'' \<mapsto> PBool True];
          f1 = (if truthy (q ''category'')
                then f0(''category'' \<mapsto> PString (toLowerCase (ToString (q ''category''))))
                else f0);
          minPrice = (case q ''minPrice'' of None \<Rightarrow> Undefined | Some s \<Rightarrow> Number toNum s);
          maxPrice = (case q ''maxPrice'' of None \<Rightarrow> Undefined | Some s \<Rightarrow> Number toNum s);
          f2 = (if \<not> NumberIsNaN minPrice \<or> \<not> NumberIsNaN maxPrice
                then f1(''price'' \<mapsto>
                       PRange (if \<not> NumberIsNaN minPrice then Some minPrice else None)
                              (if \<not> NumberIsNaN maxPrice then Some maxPrice else None))
                else f1);
          f3 = (if truthy (q ''tags'')
                then (let tags = tagList (ToString (q ''tags''))
                      in if length tags > 0 then f2(''tags'' \<mapsto> PIn tags) else f2)
                else f2);
          f4 = (if truthy (q ''search'')
                then f3(''$text'' \<mapsto> PSearch (ToString (q ''search'')))
                else f3)
      in f4)"

section \<open>Sort Resolver\<close>

definition startsWithDash :: "string \<Rightarrow> bool" where
  "startsWithDash s = (case s of [] \<Rightarrow> False | c # _ \<Rightarrow> c = CHR ''-'')"

text \<open>\<open>field.replace(/^-/, '')\<close>: one leading dash is removed.\<close>

definition replaceLeadingDash :: "string \<Rightarrow> string" where
  "replaceLeadingDash s = (case s of [] \<Rightarrow> [] | c # r \<Rightarrow> if c = CHR ''-'' then r else s)"

definition allowed :: "string list" where
  "allowed = [''price'', ''createdAt'', ''rating'', ''name'']"

text \<open>The sort object has one key; it is the pair of the key and its direction.\<close>

definition parseSort :: "string option \<Rightarrow> string \<times> int" where
  "parseSort sortParam =
     (if \<not> truthy sortParam then (''createdAt'', - 1)
      else (let field = trim (ToString sortParam);
                direction = (if startsWithDash field then - 1 else 1);
                cleanField = replaceLeadingDash field
            in if cleanField \<notin> set allowed then (''createdAt'', - 1)
               else (cleanField, direction)))"

section \<open>Response Cache\<close>

text \<open>
  \<open>cacheStore\<close> is the module-level \<open>Map\<close> of the middleware, passed explicitly. Times
  are the integer milliseconds of \<open>Date.now()\<close>.
\<close>

record 'b entry =
  payload :: 'b
  expiresAt :: int

type_synonym 'b cacheStore = "string \<rightharpoonup> 'b entry"

record request =
  reqMethod :: string
  originalUrl :: string

definition buildCacheKey :: "request \<Rightarrow> string" where
  "buildCacheKey req = reqMethod req @ '':'' @ originalUrl req"

text \<open>
  The replacement of \<open>res.json\<close> is a closure over \<open>key\<close>, \<open>now\<close> and \<open>ttlSeconds\<close>. The
  state of \<open>res\<close> as a handler sees it is \<open>None\<close> (the original \<open>res.json\<close>) or \<open>Some\<close>
  of that closure.
\<close>

type_synonym patch = "string \<times> int \<times> int"

text \<open>
  What one call of the middleware does: \<open>Respond p\<close> is \<open>return res.json(cached.payload)\<close>,
  where \<open>next\<close> is not called; \<open>Next r\<close> is \<open>return next()\<close> with \<open>res\<close> left as \<open>r\<close>.
\<close>

datatype 'b outcome = Respond 'b | Next "patch option"

definition cacheMiddleware :: "int \<Rightarrow> request \<Rightarrow> int \<Rightarrow> 'b cacheStore \<Rightarrow> 'b outcome" where
  "cacheMiddleware ttlSeconds req now cacheStore =
     (if reqMethod req \<noteq> ''GET'' then Next None
      else (let key = buildCacheKey req;
                cached = cacheStore key
            in case cached of
                 None \<Rightarrow> Next (Some (key, now, ttlSeconds))
               | Some c \<Rightarrow>
                   if expiresAt c > now then Respond (payload c)
                   else Next (Some (key, now, ttlSeconds))))"

text \<open>The store effect of the patched \<open>res.json(body)\<close>, on the store as it is at the call.\<close>

definition patchedJson :: "patch \<Rightarrow> 'b \<Rightarrow> 'b cacheStore \<Rightarrow> 'b cacheStore" where
  "patchedJson p body cacheStore =
     (case p of (key, now, ttlSeconds) \<Rightarrow>
        cacheStore(key \<mapsto> \<lparr>payload = body, expiresAt = now + ttlSeconds * 1000\<rparr>))"

definition invalidateCache :: "'b cacheStore \<Rightarrow> 'b cacheStore" where
  "invalidateCache cacheStore = Map.empty"

text \<open>
  A response is sent by \<open>res.status(s).json(body)\<close> or by \<open>res.status(s).send()\<close>;
  \<open>res.json\<close> alone sends status 200. \<open>resJson\<close> is \<open>res.status(s).json(body)\<close> on a
  \<open>res\<close> whose \<open>json\<close> may be patched.
\<close>

datatype 'b response = Json nat 'b | Send nat

definition resJson ::
  "patch option \<Rightarrow> nat \<Rightarrow> 'b \<Rightarrow> 'b cacheStore \<Rightarrow> 'b response \<times> 'b cacheStore" where
  "resJson res status body cacheStore =
     (Json status body,
      case res of None \<Rightarrow> cacheStore | Some p \<Rightarrow> patchedJson p body cacheStore)"

text \<open>
  A route \<open>router.get(path, cacheMiddleware(ttl), handler)\<close>, when nothing else touches the
  store between the middleware and the handler's response.
\<close>

definition route ::
  "int \<Rightarrow> (patch option \<Rightarrow> 'b cacheStore \<Rightarrow> 'b response \<times> 'b cacheStore)
     \<Rightarrow> request \<Rightarrow> int \<Rightarrow> 'b cacheStore \<Rightarrow> 'b response \<times> 'b cacheStore" where
  "route ttlSeconds handler req now cacheStore =
     (case cacheMiddleware ttlSeconds req now cacheStore of
        Respond p \<Rightarrow> (Json 200 p, cacheStore)
      | Next res \<Rightarrow> handler res cacheStore)"

section \<open>Controllers\<close>

text \<open>
  Response bodies: a \<open>{message: ...}\<close> object or a product document. A rejected storage
  call carries the fields of the error the controllers and the error handler read.
\<close>

datatype 'd body = Message string | Document 'd

record dbError =
  code :: "int option"
  statusCode :: "nat option"
  message :: string

text \<open>
  The centralized error handler of the application, reached by \<open>next(err)\<close>; no header
  has been sent on these paths.
\<close>

definition errorHandler ::
  "dbError \<Rightarrow> patch option \<Rightarrow> 'd body cacheStore \<Rightarrow> 'd body response \<times> 'd body cacheStore" where
  "errorHandler err res cacheStore =
     resJson res
       (case statusCode err of None \<Rightarrow> 500 | Some s \<Rightarrow> if s = 0 then 500 else s)
       (Message (if message err = [] then ''Internal Server Error'' else message err))
       cacheStore"

text \<open>
  \<open>getProductById\<close>. \<open>isValid\<close> is \<open>mongoose.Types.ObjectId.isValid\<close> and \<open>findById\<close> the
  storage call, both parameters; \<open>Inl\<close> is a rejection.
\<close>

definition getProductById ::
  "(string \<Rightarrow> bool) \<Rightarrow> (string \<Rightarrow> dbError + 'd option) \<Rightarrow> string
     \<Rightarrow> patch option \<Rightarrow> 'd body cacheStore \<Rightarrow> 'd body response \<times> 'd body cacheStore" where
  "getProductById isValid findById ident res cacheStore =
     (if \<not> isValid ident then resJson res 400 (Message ''Invalid product id'') cacheStore
      else (case findById ident of
              Inl err \<Rightarrow> errorHandler err res cacheStore
            | Inr None \<Rightarrow> resJson res 404 (Message ''Product not found'') cacheStore
            | Inr (Some product) \<Rightarrow> resJson res 200 (Document product) cacheStore))"

text \<open>Values of a parsed JSON request body, with their truthiness and \<open>== null\<close>.\<close>

datatype json =
    JNull
  | JBool bool
  | JNumber int
  | JString string
  | JArray "json list"
  | JObject "(string \<times> json) list"

definition falsy :: "json option \<Rightarrow> bool" where
  "falsy v =
     (case v of
        None \<Rightarrow> True
      | Some JNull \<Rightarrow> True
      | Some (JBool b) \<Rightarrow> \<not> b
      | Some (JNumber n) \<Rightarrow> n = 0
      | Some (JString s) \<Rightarrow> s = []
      | Some _ \<Rightarrow> False)"

definition isNullish :: "json option \<Rightarrow> bool" where
  "isNullish v = (case v of None \<Rightarrow> True | Some JNull \<Rightarrow> True | Some _ \<Rightarrow> False)"

definition payloadFields :: "string list" where
  "payloadFields = [''name'', ''slug'', ''price'', ''category'', ''shortDescription'',
     ''description'', ''imageUrl'', ''thumbnailUrl'', ''tags'', ''stock'']"

text \<open>
  The write controllers are mounted without the cache middleware, so their \<open>res.json\<close> is
  the original one. The storage calls are parameters.
\<close>

definition createProduct ::
  "((string \<rightharpoonup> json) \<Rightarrow> dbError + 'd) \<Rightarrow> (string \<rightharpoonup> json)
     \<Rightarrow> 'd body cacheStore \<Rightarrow> 'd body response \<times> 'd body cacheStore" where
  "createProduct create reqBody cacheStore =
     (if falsy (reqBody ''name'') \<or> falsy (reqBody ''slug'') \<or> isNullish (reqBody ''price'')
         \<or> falsy (reqBody ''category'')
      then resJson None 400 (Message ''name, slug, price and category are required'') cacheStore
      else (case create (reqBody |` set payloadFields) of
              Inr product \<Rightarrow> resJson None 201 (Document product) (invalidateCache cacheStore)
            | Inl err \<Rightarrow>
                if code err = Some 11000
                then resJson None 409 (Message ''Slug must be unique'') cacheStore
                else errorHandler err None cacheStore))"

definition updateProduct ::
  "(string \<Rightarrow> bool) \<Rightarrow> (string \<Rightarrow> (string \<rightharpoonup> json) \<Rightarrow> dbError + 'd option) \<Rightarrow> string
     \<Rightarrow> (string \<rightharpoonup> json) \<Rightarrow> 'd body cacheStore \<Rightarrow> 'd body response \<times> 'd body cacheStore" where
  "updateProduct isValid findByIdAndUpdate ident updates cacheStore =
     (if \<not> isValid ident then resJson None 400 (Message ''Invalid product id'') cacheStore
      else (case findByIdAndUpdate ident updates of
              Inr None \<Rightarrow> resJson None 404 (Message ''Product not found'') cacheStore
            | Inr (Some product) \<Rightarrow>
                resJson None 200 (Document product) (invalidateCache cacheStore)
            | Inl err \<Rightarrow>
                if code err = Some 11000
                then resJson None 409 (Message ''Slug must be unique'') cacheStore
                else errorHandler err None cacheStore))"

definition deleteProduct ::
  "(string \<Rightarrow> bool) \<Rightarrow> (string \<Rightarrow> dbError + 'd option) \<Rightarrow> string
     \<Rightarrow> 'd body cacheStore \<Rightarrow> 'd body response \<times> 'd body cacheStore" where
  "deleteProduct isValid findByIdAndDelete ident cacheStore =
     (if \<not> isValid ident then resJson None 400 (Message ''Invalid product id'') cacheStore
      else (case findByIdAndDelete ident of
              Inr None \<Rightarrow> resJson None 404 (Message ''Product not found'') cacheStore
            | Inr (Some deleted) \<Rightarrow> (Send 204, invalidateCache cacheStore)
            | Inl err \<Rightarrow> errorHandler err None cacheStore))"

section \<open>Reference notions and sample inputs\<close>






definition q_override :: query where
  "q_override =
     [''isActive'' \<mapsto> ''false'', ''category'' \<mapsto> ''Books'', ''minPrice'' \<mapsto> ''abc'']"

definition detailReq :: request where
  "detailReq = \<lparr>reqMethod = ''GET'', originalUrl = ''/api/products/xyz''\<rparr>"

definition noObjectId :: "string \<Rightarrow> bool" where
  "noObjectId ident = False"

definition anyObjectId :: "string \<Rightarrow> bool" where
  "anyObjectId ident = True"

definition findNothing :: "string \<Rightarrow> dbError + string option" where
  "findNothing ident = Inr None"

definition findWidget :: "string \<Rightarrow> dbError + string option" where
  "findWidget ident = Inr (Some ''widget'')"

definition emptyStore :: "string body cacheStore" where
  "emptyStore = Map.empty"

definition staleStore :: "string body cacheStore" where
  "staleStore =
     [''GET:/api/products/xyz'' \<mapsto> \<lparr>payload = Document ''old'', expiresAt = 5000\<rparr>]"

definition createOk :: "(string \<rightharpoonup> json) \<Rightarrow> dbError + string" where
  "createOk p = Inr ''created''"

definition createDuplicate :: "(string \<rightharpoonup> json) \<Rightarrow> dbError + string" where
  "createDuplicate p =
     Inl \<lparr>code = Some 11000, statusCode = None, message = ''E11000 duplicate key''\<rparr>"

definition updateOk :: "string \<Rightarrow> (string \<rightharpoonup> json) \<Rightarrow> dbError + string option" where
  "updateOk ident u = Inr (Some ''updated'')"

definition updateMissing :: "string \<Rightarrow> (string \<rightharpoonup> json) \<Rightarrow> dbError + string option" where
  "updateMissing ident u = Inr None"

definition goodBody :: "string \<rightharpoonup> json" where
  "goodBody = [''name'' \<mapsto> JString ''Lamp'', ''slug'' \<mapsto> JString ''lamp'',
     ''price'' \<mapsto> JNumber 0, ''category'' \<mapsto> JString ''home'']"

definition badBody :: "string \<rightharpoonup> json" where
  "badBody = [''name'' \<mapsto> JString ''Lamp'', ''slug'' \<mapsto> JString [],
     ''price'' \<mapsto> JNumber 5, ''category'' \<mapsto> JString ''home'']"

section \<open>Properties of the Pagination Resolver\<close>



text \<open>
  \<open>Number.parseInt\<close> reads no number from a string exactly when the string is not
  made of blanks, one optional sign and at least one digit, followed by anything.
\<close>

lemma parseInt10_None_iff:
  "(parseInt10 s = None) =
     (\<not> (\<exists>ws sg ds rest. s = ws @ sg @ ds @ rest \<and> list_all isWhiteSpace ws
            \<and> (sg = [] \<or> sg = ''+'' \<or> sg = ''-'') \<and> ds \<noteq> [] \<and> list_all isDigit ds))"
proof
  assume n: "parseInt10 s = None"
  show "\<not> (\<exists>ws sg ds rest. s = ws @ sg @ ds @ rest \<and> list_all isWhiteSpace ws
            \<and> (sg = [] \<or> sg = ''+'' \<or> sg = ''-'') \<and> ds \<noteq> [] \<and> list_all isDigit ds)"
  proof
    assume "\<exists>ws sg ds rest. s = ws @ sg @ ds @ rest \<and> list_all isWhiteSpace ws
            \<and> (sg = [] \<or> sg = ''+'' \<or> sg = ''-'') \<and> ds \<noteq> [] \<and> list_all isDigit ds"
    then obtain ws sg ds rest where s: "s = ws @ sg @ ds @ rest"
      and w: "list_all isWhiteSpace ws" and g: "sg = [] \<or> sg = ''+'' \<or> sg = ''-''"
      and d: "ds \<noteq> []" "list_all isDigit ds" by blast
    obtain c ds' where ds: "ds = c # ds'" using d(1) by (cases ds) auto
    have c: "isDigit c" using d(2) ds by simp
    have nc: "\<not> isWhiteSpace c" "c \<noteq> CHR ''+''" "c \<noteq> CHR ''-''"
      using c by (auto simp: isDigit_def isWhiteSpace_def)
    have ns: "\<not> isWhiteSpace (CHR ''+'')" "\<not> isWhiteSpace (CHR ''-'')"
      by (simp_all add: isWhiteSpace_def)
    have "dropWhile isWhiteSpace s = dropWhile isWhiteSpace (sg @ ds @ rest)"
      unfolding s using w by (intro dropWhile_append2) (simp add: list_all_iff)
    also have "\<dots> = sg @ ds @ rest"
      using g nc ns ds by auto
    finally have t: "dropWhile isWhiteSpace s = sg @ c # ds' @ rest" using ds by simp
    have "parseInt10 s \<noteq> None"
      using g nc c by (auto simp: parseInt10_def t Let_def)
    with n show False by simp
  qed
next
  assume h: "\<not> (\<exists>ws sg ds rest. s = ws @ sg @ ds @ rest \<and> list_all isWhiteSpace ws
            \<and> (sg = [] \<or> sg = ''+'' \<or> sg = ''-'') \<and> ds \<noteq> [] \<and> list_all isDigit ds)"
  show "parseInt10 s = None"
  proof (rule ccontr)
    assume p: "parseInt10 s \<noteq> None"
    define t where "t = dropWhile isWhiteSpace s"
    define u where "u = (case t of [] \<Rightarrow> [] | c # r \<Rightarrow> if c = CHR ''+'' \<or> c = CHR ''-'' then r else t)"
    define sg where "sg = (case t of [] \<Rightarrow> [] | c # r \<Rightarrow> if c = CHR ''+'' \<or> c = CHR ''-'' then [c] else [])"
    have z: "takeWhile isDigit u \<noteq> []"
    proof
      assume "takeWhile isDigit u = []"
      then have "parseInt10 s = None"
        unfolding u_def t_def by (simp add: parseInt10_def Let_def)
      with p show False by simp
    qed
    have s1: "s = takeWhile isWhiteSpace s @ t" by (simp add: t_def)
    have s2: "t = sg @ u" by (auto simp: sg_def u_def split: list.splits)
    have s3: "u = takeWhile isDigit u @ dropWhile isDigit u" by simp
    have g: "sg = [] \<or> sg = ''+'' \<or> sg = ''-''" by (auto simp: sg_def split: list.splits)
    have w: "list_all isWhiteSpace (takeWhile isWhiteSpace s)"
      by (auto simp: list_all_iff dest: set_takeWhileD)
    have d: "list_all isDigit (takeWhile isDigit u)"
      by (auto simp: list_all_iff dest: set_takeWhileD)
    have "s = takeWhile isWhiteSpace s @ sg @ takeWhile isDigit u @ dropWhile isDigit u"
      using s1 s2 s3 by simp
    with h g w d z show False by blast
  qed
qed





section \<open>Properties of the Filter Builder\<close>







text \<open>
  C1, at the failing input. With \<open>minPrice\<close> and \<open>maxPrice\<close> both absent the filter
  does hold a \<open>price\<close> predicate, \<open>{$gte: undefined, $lte: undefined}\<close>: both values
  are \<open>undefined\<close>, and \<open>Number.isNaN(undefined)\<close> is false. A bound that is present
  and converts to \<open>NaN\<close> gets no entry of its own; the \<open>price\<close> predicate is absent
  only when both bounds are present and both convert to \<open>NaN\<close>.
\<close>

theorem price_predicate_absent_bounds:
  "(q ''minPrice'' = None \<and> q ''maxPrice'' = None
      \<longrightarrow> buildProductFilter toNum q ''price'' = Some (PRange (Some Undefined) (Some Undefined)))
   \<and> (\<forall>s. q ''minPrice'' = Some s \<and> toNum s = None \<and> q ''maxPrice'' = None
      \<longrightarrow> buildProductFilter toNum q ''price'' = Some (PRange None (Some Undefined)))
   \<and> (\<forall>s. q ''minPrice'' = None \<and> q ''maxPrice'' = Some s \<and> toNum s = None
      \<longrightarrow> buildProductFilter toNum q ''price'' = Some (PRange (Some Undefined) None))
   \<and> (\<forall>s t. q ''minPrice'' = Some s \<and> toNum s = None \<and> q ''maxPrice'' = Some t \<and> toNum t = None
      \<longrightarrow> buildProductFilter toNum q ''price'' = None)"
  by (auto simp: buildProductFilter_def Let_def NumberIsNaN_def Number_def)

text \<open>
  C1 evaluated: the query with no parameter, and a query whose \<open>minPrice\<close> is \<open>abc\<close>.
\<close>

theorem price_predicate_absent_bounds_witness:
  "(Map.empty :: query) ''minPrice'' = None \<and> (Map.empty :: query) ''maxPrice'' = None
   \<and> buildProductFilter intLiteral Map.empty ''price''
       = Some (PRange (Some Undefined) (Some Undefined))
   \<and> q_override ''minPrice'' = Some ''abc'' \<and> intLiteral ''abc'' = None
   \<and> q_override ''maxPrice'' = None
   \<and> buildProductFilter intLiteral q_override ''price'' = Some (PRange None (Some Undefined))"
proof -
  have i: "intLiteral ''abc'' = None"
    by (simp add: intLiteral_def trim_def isWhiteSpace_def isDigit_def)
  have q: "q_override ''minPrice'' = Some ''abc''" "q_override ''maxPrice'' = None"
    by (simp_all add: q_override_def)
  have a: "buildProductFilter intLiteral Map.empty ''price''
       = Some (PRange (Some Undefined) (Some Undefined))"
    using price_predicate_absent_bounds [of Map.empty intLiteral] by simp
  have b: "buildProductFilter intLiteral q_override ''price'' = Some (PRange None (Some Undefined))"
    using price_predicate_absent_bounds [of q_override intLiteral] i q by blast
  show ?thesis using i q a b by simp
qed




text \<open>
  C8. For every query the filter holds \<open>isActive: true\<close>: the key is set first and no
  later assignment writes to it, whatever the parameters are.
\<close>

theorem active_only_always:
  "buildProductFilter toNum q ''isActive'' = Some (PBool True)"
  by (simp add: buildProductFilter_def Let_def)

text \<open>Witness for C8: a query that carries \<open>isActive=false\<close>.\<close>

theorem active_only_always_witness:
  "q_override ''isActive'' = Some ''false''
   \<and> buildProductFilter intLiteral q_override ''isActive'' = Some (PBool True)"
  using active_only_always [of intLiteral q_override] by (simp add: q_override_def)

section \<open>Properties of the Sort Resolver\<close>


lemma allowed_no_dash:
  "f \<in> set allowed \<Longrightarrow> \<not> startsWithDash f \<and> replaceLeadingDash f = f \<and> f \<noteq> []"
  by (auto simp: allowed_def startsWithDash_def replaceLeadingDash_def)

lemma allowed_ends:
  "f \<in> set allowed \<Longrightarrow> f \<noteq> [] \<and> \<not> isWhiteSpace (hd f) \<and> \<not> isWhiteSpace (last f)"
  by (auto simp: allowed_def isWhiteSpace_def)

lemma trim_blanks:
  assumes "list_all isWhiteSpace l" and "list_all isWhiteSpace r"
    and "x \<noteq> []" and "\<not> isWhiteSpace (hd x)" and "\<not> isWhiteSpace (last x)"
  shows "trim (l @ x @ r) = x"
proof -
  have a: "dropWhile isWhiteSpace (l @ x @ r) = x @ r"
    using assms(1,3,4) by (cases x) (auto simp: list_all_iff dropWhile_append2)
  have "dropWhile isWhiteSpace (rev r @ rev x) = dropWhile isWhiteSpace (rev x)"
    using assms(2) by (intro dropWhile_append2) (simp add: list_all_iff)
  moreover have "dropWhile isWhiteSpace (rev x) = rev x"
    using assms(3,5) by (cases x rule: rev_cases) auto
  ultimately have b: "dropWhile isWhiteSpace (rev r @ rev x) = rev x" by simp
  show ?thesis by (simp add: trim_def a b)
qed

text \<open>Blanks around a whitelisted token do not change the resolved sort.\<close>

lemma parseSort_padded:
  assumes "list_all isWhiteSpace l" and "list_all isWhiteSpace r" and "f \<in> set allowed"
  shows "parseSort (Some (l @ f @ r)) = (f, 1)"
    and "parseSort (Some (l @ (CHR ''-'' # f) @ r)) = (f, - 1)"
proof -
  have e: "f \<noteq> []" "\<not> isWhiteSpace (hd f)" "\<not> isWhiteSpace (last f)"
    using allowed_ends [OF assms(3)] by simp_all
  have t1: "trim (l @ f @ r) = f"
    using trim_blanks [OF assms(1,2) e] .
  have t2: "trim (l @ CHR ''-'' # f @ r) = CHR ''-'' # f"
    using trim_blanks [OF assms(1,2), of "CHR ''-'' # f"] e by (simp add: isWhiteSpace_def)
  have n1: "l @ f @ r \<noteq> []" using e by simp
  show "parseSort (Some (l @ f @ r)) = (f, 1)"
    using allowed_no_dash [OF assms(3)] assms(3) n1
    by (simp add: parseSort_def Let_def ToString_def truthy_def t1)
  show "parseSort (Some (l @ (CHR ''-'' # f) @ r)) = (f, - 1)"
    using assms(3)
    by (simp add: parseSort_def Let_def ToString_def truthy_def t2 startsWithDash_def
        replaceLeadingDash_def)
qed




section \<open>Properties of the Response Cache\<close>

lemma resJson_patched:
  "resJson (Some (key, now, ttl)) status b cacheStore =
     (Json status b, cacheStore(key \<mapsto> \<lparr>payload = b, expiresAt = now + ttl * 1000\<rparr>))"
  by (simp add: resJson_def patchedJson_def)

lemma miss_patch:
  "cacheMiddleware ttl req now cacheStore = Next (Some p)
     \<Longrightarrow> p = (buildCacheKey req, now, ttl) \<and> reqMethod req = ''GET''"
  by (auto simp: cacheMiddleware_def Let_def split: if_splits option.splits)

lemma hit_after_store:
  "reqMethod req = ''GET''
     \<Longrightarrow> (cacheMiddleware ttl' req t
             (cacheStore(buildCacheKey req \<mapsto> \<lparr>payload = b, expiresAt = x\<rparr>))
            = Respond b) = (t < x)"
  by (simp add: cacheMiddleware_def Let_def)

lemma errorHandler_unpatched: "snd (errorHandler err None cacheStore) = cacheStore"
  by (simp add: errorHandler_def resJson_def)

text \<open>
  C4. For a GET request whose key has a stored entry \<open>e\<close>, the middleware answers with
  the stored payload, without calling \<open>next\<close>, exactly when \<open>now < expiresAt e\<close>; the
  route then returns that payload whatever the handler is and leaves the store as it was.
  Otherwise the request is a miss: \<open>next\<close> is called with \<open>res.json\<close> patched, the
  handler runs, and a payload it sends through \<open>res.json\<close> replaces the entry, with
  \<open>expiresAt = now + ttl * 1000\<close>.
\<close>

theorem cache_hit_iff_live:
  assumes "reqMethod req = ''GET''" and "cacheStore (buildCacheKey req) = Some e"
  shows "(cacheMiddleware ttl req now cacheStore = Respond (payload e)) = (now < expiresAt e)
       \<and> (now < expiresAt e \<longrightarrow>
            route ttl handler req now cacheStore = (Json 200 (payload e), cacheStore))
       \<and> (\<not> now < expiresAt e \<longrightarrow>
            cacheMiddleware ttl req now cacheStore = Next (Some (buildCacheKey req, now, ttl))
            \<and> route ttl handler req now cacheStore
                = handler (Some (buildCacheKey req, now, ttl)) cacheStore
            \<and> (\<forall>status b. resJson (Some (buildCacheKey req, now, ttl)) status b cacheStore
                 = (Json status b,
                    cacheStore(buildCacheKey req \<mapsto>
                      \<lparr>payload = b, expiresAt = now + ttl * 1000\<rparr>))))"
  using assms by (auto simp: cacheMiddleware_def route_def Let_def resJson_patched)

text \<open>
  Witness for C4: an entry that expires at 5000 is served at 4999 and recomputed at 5000.
\<close>

theorem cache_hit_iff_live_witness:
  "reqMethod detailReq = ''GET''
   \<and> staleStore (buildCacheKey detailReq) = Some \<lparr>payload = Document ''old'', expiresAt = 5000\<rparr>
   \<and> cacheMiddleware 60 detailReq 4999 staleStore = Respond (Document ''old'')
   \<and> route 60 (getProductById anyObjectId findWidget ''xyz'') detailReq 4999 staleStore
        = (Json 200 (Document ''old''), staleStore)
   \<and> cacheMiddleware 60 detailReq 5000 staleStore
        = (Next (Some (''GET:/api/products/xyz'', 5000, 60)) :: string body outcome)
   \<and> route 60 (getProductById anyObjectId findWidget ''xyz'') detailReq 5000 staleStore
        = (Json 200 (Document ''widget''),
           staleStore(''GET:/api/products/xyz'' \<mapsto>
             \<lparr>payload = Document ''widget'', expiresAt = 65000\<rparr>))"
proof -
  let ?e = "\<lparr>payload = Document ''old'', expiresAt = 5000\<rparr> :: string body entry"
  have g: "reqMethod detailReq = ''GET''" by (simp add: detailReq_def)
  have k: "buildCacheKey detailReq = ''GET:/api/products/xyz''"
    by (simp add: buildCacheKey_def detailReq_def)
  have s: "staleStore (buildCacheKey detailReq) = Some ?e" by (simp add: k staleStore_def)
  have h: "getProductById anyObjectId findWidget ''xyz''
             (Some (''GET:/api/products/xyz'', 5000, 60)) staleStore
      = (Json 200 (Document ''widget''),
           staleStore(''GET:/api/products/xyz'' \<mapsto>
             \<lparr>payload = Document ''widget'', expiresAt = 65000\<rparr>))"
    by (simp add: getProductById_def anyObjectId_def findWidget_def resJson_patched)
  note a = cache_hit_iff_live [where req = detailReq and cacheStore = staleStore and e = "?e"
      and ttl = 60 and now = 4999 and handler = "getProductById anyObjectId findWidget ''xyz''",
      OF g s]
  note b = cache_hit_iff_live [where req = detailReq and cacheStore = staleStore and e = "?e"
      and ttl = 60 and now = 5000 and handler = "getProductById anyObjectId findWidget ''xyz''",
      OF g s]
  have a1: "cacheMiddleware 60 detailReq 4999 staleStore = Respond (Document ''old'')"
    using a by simp
  have a2: "route 60 (getProductById anyObjectId findWidget ''xyz'') detailReq 4999 staleStore
        = (Json 200 (Document ''old''), staleStore)"
    using a by simp
  have b1: "cacheMiddleware 60 detailReq 5000 staleStore
        = (Next (Some (''GET:/api/products/xyz'', 5000, 60)) :: string body outcome)"
    using b k by simp
  have b2: "route 60 (getProductById anyObjectId findWidget ''xyz'') detailReq 5000 staleStore
        = (Json 200 (Document ''widget''),
           staleStore(''GET:/api/products/xyz'' \<mapsto>
             \<lparr>payload = Document ''widget'', expiresAt = 65000\<rparr>))"
    using b k h by simp
  show ?thesis using g s a1 a2 b1 b2 by simp
qed

text \<open>
  C5. After a miss detected at time \<open>now\<close>, the patched \<open>res.json\<close> stores the entry
  with \<open>expiresAt = now + ttl * 1000\<close>, whatever the store is by then and however long
  the handler took. When the payload is stored at \<open>now + d\<close>, a later request at time
  \<open>t\<close> is served from the entry exactly while \<open>t - (now + d) < ttl * 1000 - d\<close>: the
  entry is servable for the TTL less \<open>d\<close>.
\<close>

theorem expiry_from_miss_time:
  assumes "cacheMiddleware ttl req now cacheStore = Next (Some p)" and "0 \<le> d"
  shows "patchedJson p b later (buildCacheKey req)
           = Some \<lparr>payload = b, expiresAt = now + ttl * 1000\<rparr>
       \<and> (\<forall>t ttl'. now + d \<le> t \<longrightarrow>
            (cacheMiddleware ttl' req t (patchedJson p b later) = Respond b)
              = (t - (now + d) < ttl * 1000 - d))"
proof -
  have p: "p = (buildCacheKey req, now, ttl)" and g: "reqMethod req = ''GET''"
    using miss_patch [OF assms(1)] by simp_all
  have s: "patchedJson p b later
      = later(buildCacheKey req \<mapsto> \<lparr>payload = b, expiresAt = now + ttl * 1000\<rparr>)"
    by (simp add: p patchedJson_def)
  have "(cacheMiddleware ttl' req t (patchedJson p b later) = Respond b)
              = (t - (now + d) < ttl * 1000 - d)" for t ttl'
    using hit_after_store [OF g, of ttl' t later b "now + ttl * 1000"] by (simp add: s) arith
  then show ?thesis by (simp add: s)
qed

text \<open>
  Witness for C5: a miss at time 0 with a TTL of 60 seconds, stored 20 seconds later; the
  entry is served at 59999 and no longer at 60000.
\<close>

theorem expiry_from_miss_time_witness:
  "cacheMiddleware 60 detailReq 0 emptyStore = Next (Some (''GET:/api/products/xyz'', 0, 60))
   \<and> (0 :: int) \<le> 20000
   \<and> patchedJson (''GET:/api/products/xyz'', 0, 60) (Document ''widget'') emptyStore
        (buildCacheKey detailReq) = Some \<lparr>payload = Document ''widget'', expiresAt = 60000\<rparr>
   \<and> cacheMiddleware 60 detailReq 59999
        (patchedJson (''GET:/api/products/xyz'', 0, 60) (Document ''widget'') emptyStore)
        = Respond (Document ''widget'')
   \<and> cacheMiddleware 60 detailReq 60000
        (patchedJson (''GET:/api/products/xyz'', 0, 60) (Document ''widget'') emptyStore)
        \<noteq> Respond (Document ''widget'')"
proof -
  have m: "cacheMiddleware 60 detailReq 0 emptyStore
      = Next (Some (''GET:/api/products/xyz'', 0, 60))"
    by (simp add: cacheMiddleware_def detailReq_def buildCacheKey_def emptyStore_def)
  have d: "(0 :: int) \<le> 20000" by simp
  note t = expiry_from_miss_time [OF m d, of "Document ''widget''" emptyStore]
  have a: "patchedJson (''GET:/api/products/xyz'', 0, 60) (Document ''widget'') emptyStore
        (buildCacheKey detailReq) = Some \<lparr>payload = Document ''widget'', expiresAt = 60000\<rparr>"
    using t by simp
  have b: "cacheMiddleware 60 detailReq 59999
        (patchedJson (''GET:/api/products/xyz'', 0, 60) (Document ''widget'') emptyStore)
        = Respond (Document ''widget'')"
    using t by simp
  have c: "cacheMiddleware 60 detailReq 60000
        (patchedJson (''GET:/api/products/xyz'', 0, 60) (Document ''widget'') emptyStore)
        \<noteq> Respond (Document ''widget'')"
    using t by simp
  show ?thesis using m a b c by simp
qed

text \<open>
  C3 as stated fails: the patched \<open>res.json\<close> stores the body whatever the status. On the
  detail route the 400 body of an invalid identifier and the 404 body of a missing
  product are stored under the request's key, and a request for the same key one second
  later is answered with the stored body although its handler would find the product.
\<close>

theorem error_body_cached_counterexample:
  "fst (route 60 (getProductById noObjectId findNothing ''xyz'') detailReq 0 emptyStore)
     = Json 400 (Message ''Invalid product id'')
   \<and> snd (route 60 (getProductById noObjectId findNothing ''xyz'') detailReq 0 emptyStore)
        ''GET:/api/products/xyz''
     = Some \<lparr>payload = Message ''Invalid product id'', expiresAt = 60000\<rparr>
   \<and> fst (route 60 (getProductById anyObjectId findWidget ''xyz'') detailReq 1000
        (snd (route 60 (getProductById noObjectId findNothing ''xyz'') detailReq 0 emptyStore)))
     = Json 200 (Message ''Invalid product id'')
   \<and> fst (route 60 (getProductById anyObjectId findNothing ''xyz'') detailReq 0 emptyStore)
     = Json 404 (Message ''Product not found'')
   \<and> snd (route 60 (getProductById anyObjectId findNothing ''xyz'') detailReq 0 emptyStore)
        ''GET:/api/products/xyz''
     = Some \<lparr>payload = Message ''Product not found'', expiresAt = 60000\<rparr>
   \<and> fst (route 60 (getProductById anyObjectId findWidget ''xyz'') detailReq 1000
        (snd (route 60 (getProductById anyObjectId findNothing ''xyz'') detailReq 0 emptyStore)))
     = Json 200 (Message ''Product not found'')"
  by (simp add: route_def cacheMiddleware_def detailReq_def buildCacheKey_def emptyStore_def
      getProductById_def noObjectId_def anyObjectId_def findNothing_def findWidget_def
      resJson_def patchedJson_def)

text \<open>
  C3, amended. On a cache miss the Response Cache stores the payload of every response
  the wrapped handler sends through \<open>res.json\<close>, whatever its status, under the request's
  key with \<open>expiresAt = now + ttl * 1000\<close>, and a later request for that key before
  \<open>expiresAt\<close> is answered with the stored payload. On the detail path the 400
  invalid-identifier body and the 404 not-found body are stored like the product of a
  200 response.
\<close>

theorem json_body_cached_any_status:
  assumes "cacheMiddleware ttl req now cacheStore = Next (Some p)"
  shows "resJson (Some p) status b later
           = (Json status b,
              later(buildCacheKey req \<mapsto> \<lparr>payload = b, expiresAt = now + ttl * 1000\<rparr>))
       \<and> (\<forall>t ttl'. t < now + ttl * 1000 \<longrightarrow>
            cacheMiddleware ttl' req t (snd (resJson (Some p) status b later)) = Respond b)
       \<and> (\<not> isValid ident \<longrightarrow>
            getProductById isValid findById ident (Some p) later
              = (Json 400 (Message ''Invalid product id''),
                 later(buildCacheKey req \<mapsto>
                   \<lparr>payload = Message ''Invalid product id'', expiresAt = now + ttl * 1000\<rparr>)))
       \<and> (isValid ident \<and> findById ident = Inr None \<longrightarrow>
            getProductById isValid findById ident (Some p) later
              = (Json 404 (Message ''Product not found''),
                 later(buildCacheKey req \<mapsto>
                   \<lparr>payload = Message ''Product not found'', expiresAt = now + ttl * 1000\<rparr>)))
       \<and> (\<forall>product. isValid ident \<and> findById ident = Inr (Some product) \<longrightarrow>
            getProductById isValid findById ident (Some p) later
              = (Json 200 (Document product),
                 later(buildCacheKey req \<mapsto>
                   \<lparr>payload = Document product, expiresAt = now + ttl * 1000\<rparr>)))"
proof -
  have p: "p = (buildCacheKey req, now, ttl)" and g: "reqMethod req = ''GET''"
    using miss_patch [OF assms] by simp_all
  have r: "resJson (Some p) s x later
           = (Json s x, later(buildCacheKey req \<mapsto> \<lparr>payload = x, expiresAt = now + ttl * 1000\<rparr>))"
    for s x
    by (simp add: p resJson_patched)
  have h: "\<forall>t ttl'. t < now + ttl * 1000 \<longrightarrow>
            cacheMiddleware ttl' req t (snd (resJson (Some p) status b later)) = Respond b"
  proof (intro allI impI)
    fix t ttl'
    assume "t < now + ttl * 1000"
    then show "cacheMiddleware ttl' req t (snd (resJson (Some p) status b later)) = Respond b"
      using hit_after_store [OF g, of ttl' t later b "now + ttl * 1000"] by (simp add: r)
  qed
  have v: "\<not> isValid ident \<longrightarrow>
            getProductById isValid findById ident (Some p) later
              = (Json 400 (Message ''Invalid product id''),
                 later(buildCacheKey req \<mapsto>
                   \<lparr>payload = Message ''Invalid product id'', expiresAt = now + ttl * 1000\<rparr>))"
    by (simp add: getProductById_def r)
  have n: "isValid ident \<and> findById ident = Inr None \<longrightarrow>
            getProductById isValid findById ident (Some p) later
              = (Json 404 (Message ''Product not found''),
                 later(buildCacheKey req \<mapsto>
                   \<lparr>payload = Message ''Product not found'', expiresAt = now + ttl * 1000\<rparr>))"
    by (simp add: getProductById_def r)
  have f: "\<forall>product. isValid ident \<and> findById ident = Inr (Some product) \<longrightarrow>
            getProductById isValid findById ident (Some p) later
              = (Json 200 (Document product),
                 later(buildCacheKey req \<mapsto>
                   \<lparr>payload = Document product, expiresAt = now + ttl * 1000\<rparr>))"
    by (simp add: getProductById_def r)
  show ?thesis using r [of status b] h v n f by blast
qed

text \<open>
  Witness for C3: a miss at time 0 on the detail route, with an invalid identifier and
  with a missing product; the 404 body is served at time 1000.
\<close>

theorem json_body_cached_any_status_witness:
  "cacheMiddleware 60 detailReq 0 emptyStore = Next (Some (''GET:/api/products/xyz'', 0, 60))
   \<and> \<not> noObjectId ''xyz''
   \<and> getProductById noObjectId findNothing ''xyz''
        (Some (''GET:/api/products/xyz'', 0, 60)) emptyStore
       = (Json 400 (Message ''Invalid product id''),
          emptyStore(buildCacheKey detailReq \<mapsto>
            \<lparr>payload = Message ''Invalid product id'', expiresAt = 60000\<rparr>))
   \<and> anyObjectId ''xyz'' \<and> findNothing ''xyz'' = Inr None
   \<and> getProductById anyObjectId findNothing ''xyz''
        (Some (''GET:/api/products/xyz'', 0, 60)) emptyStore
       = (Json 404 (Message ''Product not found''),
          emptyStore(buildCacheKey detailReq \<mapsto>
            \<lparr>payload = Message ''Product not found'', expiresAt = 60000\<rparr>))
   \<and> (1000 :: int) < 0 + 60 * 1000
   \<and> cacheMiddleware 60 detailReq 1000
        (snd (resJson (Some (''GET:/api/products/xyz'', 0, 60)) 404
               (Message ''Product not found'') emptyStore))
       = Respond (Message ''Product not found'')"
proof -
  have m: "cacheMiddleware 60 detailReq 0 emptyStore
      = Next (Some (''GET:/api/products/xyz'', 0, 60))"
    by (simp add: cacheMiddleware_def detailReq_def buildCacheKey_def emptyStore_def)
  have i: "\<not> noObjectId ''xyz''" "anyObjectId ''xyz''" "findNothing ''xyz'' = Inr None"
    by (simp_all add: noObjectId_def anyObjectId_def findNothing_def)
  note a = json_body_cached_any_status [OF m, where isValid = noObjectId and ident = "''xyz''"
      and findById = findNothing and later = emptyStore]
  note b = json_body_cached_any_status [OF m, where isValid = anyObjectId and ident = "''xyz''"
      and findById = findNothing and later = emptyStore and status = 404
      and b = "Message ''Product not found''"]
  have a1: "getProductById noObjectId findNothing ''xyz''
        (Some (''GET:/api/products/xyz'', 0, 60)) emptyStore
       = (Json 400 (Message ''Invalid product id''),
          emptyStore(buildCacheKey detailReq \<mapsto>
            \<lparr>payload = Message ''Invalid product id'', expiresAt = 60000\<rparr>))"
    using a i by simp
  have b1: "getProductById anyObjectId findNothing ''xyz''
        (Some (''GET:/api/products/xyz'', 0, 60)) emptyStore
       = (Json 404 (Message ''Product not found''),
          emptyStore(buildCacheKey detailReq \<mapsto>
            \<lparr>payload = Message ''Product not found'', expiresAt = 60000\<rparr>))"
    using b i by simp
  have b2: "cacheMiddleware 60 detailReq 1000
        (snd (resJson (Some (''GET:/api/products/xyz'', 0, 60)) 404
               (Message ''Product not found'') emptyStore))
       = Respond (Message ''Product not found'')"
    using b [THEN conjunct2, THEN conjunct1, rule_format, of 1000 60] by simp
  show ?thesis using m i a1 b1 b2 by simp
qed

text \<open>
  C9. \<open>invalidateCache\<close> leaves no entry under any key. A create with a required field
  missing answers 400 and leaves the store as it was; a create that storage rejects
  leaves the store as it was, and answers 409 when the error code is 11000; a create
  that storage accepts answers 201 and clears the store. An update or a delete clears
  the store exactly when the identifier is valid and storage returns the affected
  document, and otherwise leaves it as it was.
\<close>

theorem invalidate_after_successful_write:
  "(\<forall>k. invalidateCache cacheStore k = None)
   \<and> (falsy (reqBody ''name'') \<or> falsy (reqBody ''slug'') \<or> isNullish (reqBody ''price'')
        \<or> falsy (reqBody ''category'')
      \<longrightarrow> createProduct create reqBody cacheStore
           = (Json 400 (Message ''name, slug, price and category are required''), cacheStore))
   \<and> (\<forall>err. \<not> (falsy (reqBody ''name'') \<or> falsy (reqBody ''slug'')
               \<or> isNullish (reqBody ''price'') \<or> falsy (reqBody ''category''))
           \<and> create (reqBody |` set payloadFields) = Inl err
      \<longrightarrow> snd (createProduct create reqBody cacheStore) = cacheStore
          \<and> (code err = Some 11000 \<longrightarrow> fst (createProduct create reqBody cacheStore)
                = Json 409 (Message ''Slug must be unique'')))
   \<and> (\<forall>product. \<not> (falsy (reqBody ''name'') \<or> falsy (reqBody ''slug'')
               \<or> isNullish (reqBody ''price'') \<or> falsy (reqBody ''category''))
           \<and> create (reqBody |` set payloadFields) = Inr product
      \<longrightarrow> createProduct create reqBody cacheStore
           = (Json 201 (Document product), invalidateCache cacheStore))
   \<and> snd (updateProduct isValid findByIdAndUpdate ident updates cacheStore)
       = (if isValid ident \<and> (\<exists>product. findByIdAndUpdate ident updates = Inr (Some product))
          then invalidateCache cacheStore else cacheStore)
   \<and> snd (deleteProduct isValid findByIdAndDelete ident cacheStore)
       = (if isValid ident \<and> (\<exists>deleted. findByIdAndDelete ident = Inr (Some deleted))
          then invalidateCache cacheStore else cacheStore)"
proof -
  have c: "\<forall>k. invalidateCache cacheStore k = None" by (simp add: invalidateCache_def)
  have u: "snd (updateProduct isValid findByIdAndUpdate ident updates cacheStore)
       = (if isValid ident \<and> (\<exists>product. findByIdAndUpdate ident updates = Inr (Some product))
          then invalidateCache cacheStore else cacheStore)"
    by (auto simp: updateProduct_def resJson_def errorHandler_unpatched
        split: sum.splits option.splits)
  have d: "snd (deleteProduct isValid findByIdAndDelete ident cacheStore)
       = (if isValid ident \<and> (\<exists>deleted. findByIdAndDelete ident = Inr (Some deleted))
          then invalidateCache cacheStore else cacheStore)"
    by (auto simp: deleteProduct_def resJson_def errorHandler_unpatched
        split: sum.splits option.splits)
  show ?thesis
    using c u d
    by (auto simp: createProduct_def resJson_def errorHandler_unpatched)
qed

text \<open>
  Witness for C9, on a store with one entry: a create with an empty slug, a create
  rejected as a duplicate, a create that succeeds, and updates and deletes that do and
  do not find their document.
\<close>

theorem invalidate_after_successful_write_witness:
  "falsy (badBody ''slug'')
   \<and> createProduct createOk badBody staleStore
       = (Json 400 (Message ''name, slug, price and category are required''), staleStore)
   \<and> createDuplicate (goodBody |` set payloadFields)
       = Inl \<lparr>code = Some 11000, statusCode = None, message = ''E11000 duplicate key''\<rparr>
   \<and> fst (createProduct createDuplicate goodBody staleStore)
       = Json 409 (Message ''Slug must be unique'')
   \<and> snd (createProduct createDuplicate goodBody staleStore) = staleStore
   \<and> createOk (goodBody |` set payloadFields) = Inr ''created''
   \<and> createProduct createOk goodBody staleStore
       = (Json 201 (Document ''created''), invalidateCache staleStore)
   \<and> invalidateCache staleStore ''GET:/api/products/xyz'' = None
   \<and> staleStore ''GET:/api/products/xyz'' \<noteq> None
   \<and> snd (updateProduct anyObjectId updateOk ''xyz'' goodBody staleStore)
       = invalidateCache staleStore
   \<and> snd (updateProduct anyObjectId updateMissing ''xyz'' goodBody staleStore) = staleStore
   \<and> snd (deleteProduct anyObjectId findWidget ''xyz'' staleStore) = invalidateCache staleStore
   \<and> snd (deleteProduct noObjectId findWidget ''xyz'' staleStore) = staleStore"
proof -
  have f: "falsy (badBody ''slug'')" by (simp add: badBody_def falsy_def)
  have g: "\<not> (falsy (goodBody ''name'') \<or> falsy (goodBody ''slug'')
               \<or> isNullish (goodBody ''price'') \<or> falsy (goodBody ''category''))"
    by (simp add: goodBody_def falsy_def isNullish_def)
  have cd: "createDuplicate (goodBody |` set payloadFields)
       = Inl \<lparr>code = Some 11000, statusCode = None, message = ''E11000 duplicate key''\<rparr>"
    by (simp add: createDuplicate_def)
  have co: "createOk (goodBody |` set payloadFields) = Inr ''created''"
    by (simp add: createOk_def)
  have st: "staleStore ''GET:/api/products/xyz'' \<noteq> None" by (simp add: staleStore_def)
  note a = invalidate_after_successful_write [where reqBody = badBody and create = createOk
      and cacheStore = staleStore]
  note b = invalidate_after_successful_write [where reqBody = goodBody
      and create = createDuplicate and cacheStore = staleStore]
  note c = invalidate_after_successful_write [where reqBody = goodBody and create = createOk
      and cacheStore = staleStore and isValid = anyObjectId and ident = "''xyz''"
      and findByIdAndUpdate = updateOk and updates = goodBody and findByIdAndDelete = findWidget]
  note d = invalidate_after_successful_write [where cacheStore = staleStore
      and isValid = anyObjectId and ident = "''xyz''"
      and findByIdAndUpdate = updateMissing and updates = goodBody]
  note e = invalidate_after_successful_write [where cacheStore = staleStore
      and isValid = noObjectId and ident = "''xyz''" and findByIdAndDelete = findWidget]
  have a1: "createProduct createOk badBody staleStore
       = (Json 400 (Message ''name, slug, price and category are required''), staleStore)"
    using a f by blast
  have b1: "fst (createProduct createDuplicate goodBody staleStore)
       = Json 409 (Message ''Slug must be unique'')"
    "snd (createProduct createDuplicate goodBody staleStore) = staleStore"
    using b g cd by simp_all
  have c1: "createProduct createOk goodBody staleStore
       = (Json 201 (Document ''created''), invalidateCache staleStore)"
    using c g co by blast
  have c2: "invalidateCache staleStore ''GET:/api/products/xyz'' = None"
    using c by blast
  have c3: "snd (updateProduct anyObjectId updateOk ''xyz'' goodBody staleStore)
       = invalidateCache staleStore"
    "snd (deleteProduct anyObjectId findWidget ''xyz'' staleStore) = invalidateCache staleStore"
    using c by (simp_all add: anyObjectId_def updateOk_def findWidget_def)
  have d1: "snd (updateProduct anyObjectId updateMissing ''xyz'' goodBody staleStore) = staleStore"
    using d by (simp add: updateMissing_def)
  have e1: "snd (deleteProduct noObjectId findWidget ''xyz'' staleStore) = staleStore"
    using e by (simp add: noObjectId_def)
  show ?thesis using f cd co st a1 b1 c1 c2 c3 d1 e1 by simp
qed

end
